theory Spec2Isabelle
  imports Complex_Main "HOL-Library.Word"
begin

section \<open>Python's \<open>Decimal\<close> at the default context\<close>

text \<open>
  Every number the order book side handles is a \<open>decimal.Decimal\<close>. The module runs at
  its default context: 28 significant digits, rounding half to even, division by zero
  trapped. A decimal is a coefficient and an exponent, and its value is
  \<open>coefficient * 10 ^ exponent\<close>. Python compares decimals by value (\<open>Decimal('5.00') ==
  Decimal(5)\<close>), so statements about prices and quantities are made on \<open>dec_val\<close>.
  Multiplication and division compute the exact result and round it to 28 significant
  digits. The exponent limits (\<open>Emax = 999999\<close>), the special values (NaN, infinities)
  and the sign of zero are left out: the operands here are integers read from fixed-width
  fields.
\<close>

datatype decimal = Decimal (coefficient: int) (exponent: int)

definition dec_val :: "decimal \<Rightarrow> rat" where
  "dec_val d =
     (if 0 \<le> exponent d then of_int (coefficient d) * 10 ^ nat (exponent d)
      else of_int (coefficient d) / 10 ^ nat (- exponent d))"

definition prec :: nat where
  "prec = 28"

text \<open>\<open>len(str(n))\<close>: the number of decimal digits of a coefficient.\<close>

function ndigits :: "nat \<Rightarrow> nat" where
  "ndigits n = (if n < 10 then 1 else Suc (ndigits (n div 10)))"
  by pat_completeness auto
termination
  by (relation "measure id") auto

declare ndigits.simps [simp del]

text \<open>Dropping the \<open>d\<close> low digits of \<open>c\<close>, rounding half to even.\<close>

definition round_half_even :: "nat \<Rightarrow> nat \<Rightarrow> nat" where
  "round_half_even c d =
     (let q = c div 10 ^ d; r = c mod 10 ^ d
      in if 10 ^ d < 2 * r \<or> (2 * r = 10 ^ d \<and> odd q) then q + 1 else q)"

text \<open>
  \<open>Decimal._fix\<close>: a coefficient of more than \<open>prec\<close> digits is rounded to \<open>prec\<close>
  digits; when the rounding carries into one more digit, the last digit (a zero) is
  dropped.
\<close>

definition dec_fix :: "decimal \<Rightarrow> decimal" where
  "dec_fix x =
     (let c = nat \<bar>coefficient x\<bar>
      in if ndigits c \<le> prec then x
         else
           let digits = ndigits c - prec;
               coeff = round_half_even c digits
           in if prec < ndigits coeff then
                Decimal (sgn (coefficient x) * int (coeff div 10)) (exponent x + int digits + 1)
              else Decimal (sgn (coefficient x) * int coeff) (exponent x + int digits))"

text \<open>
  The exceptions: those of Python (\<open>IndexError\<close>, \<open>AttributeError\<close>, the two of the
  decimal module), the three \<open>Exception\<close>s the sources raise, by what their message
  reports, and whatever the layout decoder raises.
\<close>

datatype decode_error = UnknownDiscriminant "8 word" | UnknownVersion

datatype error =
    IndexError
  | AttributeError
  | DivisionByZero
  | InvalidOperation
  | DataLengthMismatch nat nat
  | AccountNotFound string
  | OrderBookSideNotFound string
  | LayoutError decode_error

text \<open>\<open>Decimal.__mul__\<close>: the exact product, fixed.\<close>

definition dec_mul :: "decimal \<Rightarrow> decimal \<Rightarrow> decimal" where
  "dec_mul a b = dec_fix (Decimal (coefficient a * coefficient b) (exponent a + exponent b))"

text \<open>
  The loop of \<open>Decimal.__truediv__\<close> that brings an exact quotient as close to the ideal
  exponent as its trailing zeros allow.
\<close>

function strip_zeros :: "nat \<Rightarrow> int \<Rightarrow> int \<Rightarrow> nat \<times> int" where
  "strip_zeros coeff expn ideal_exp =
     (if expn < ideal_exp \<and> coeff mod 10 = 0 then strip_zeros (coeff div 10) (expn + 1) ideal_exp
      else (coeff, expn))"
  by pat_completeness auto
termination
  by (relation "measure (\<lambda>(coeff, expn, ideal_exp). nat (ideal_exp - expn))") auto

declare strip_zeros.simps [simp del]

text \<open>
  \<open>Decimal.__truediv__\<close>: \<open>x / 0\<close> raises \<open>DivisionByZero\<close> and \<open>0 / 0\<close> raises
  \<open>InvalidOperation\<close>; otherwise the dividend is shifted so that the integer quotient has
  more than \<open>prec\<close> digits, a non-zero remainder is recorded in the last digit (so that
  the rounding that follows sees it), an exact quotient loses its trailing zeros, and the
  result is fixed.
\<close>

definition dec_div :: "decimal \<Rightarrow> decimal \<Rightarrow> error + decimal" where
  "dec_div a b =
     (if coefficient b = 0 then
        (if coefficient a = 0 then Inl InvalidOperation else Inl DivisionByZero)
      else if coefficient a = 0 then Inr (Decimal 0 (exponent a - exponent b))
      else
        let op1 = nat \<bar>coefficient a\<bar>;
            op2 = nat \<bar>coefficient b\<bar>;
            shift = int (ndigits op2) - int (ndigits op1) + int prec + 1;
            expn = exponent a - exponent b - shift;
            num = (if 0 \<le> shift then op1 * 10 ^ nat shift else op1);
            den = (if 0 \<le> shift then op2 else op2 * 10 ^ nat (- shift));
            coeff = num div den;
            remainder = num mod den;
            (coeff, expn) =
              (if remainder \<noteq> 0 then (if coeff mod 5 = 0 then coeff + 1 else coeff, expn)
               else strip_zeros coeff expn (exponent a - exponent b))
        in Inr (dec_fix (Decimal (sgn (coefficient a) * sgn (coefficient b) * int coeff) expn)))"

text \<open>
  \<open>Decimal(10) ** n\<close> for an integer \<open>n\<close>: the value is \<open>10 ^ n\<close>. A negative power
  is the digit 1 with the exponent \<open>n\<close>; a positive power is written out, up to \<open>prec\<close>
  digits.
\<close>

definition dec_pow10 :: "int \<Rightarrow> decimal" where
  "dec_pow10 n =
     (if n < 0 then Decimal 1 n
      else if n < int prec then Decimal (10 ^ nat n) 0
      else Decimal (10 ^ (prec - 1)) (n - int (prec - 1)))"

text \<open>\<open>Decimal(n)\<close> for an integer \<open>n\<close> is exact, whatever the number of digits.\<close>

definition dec_of_int :: "int \<Rightarrow> decimal" where
  "dec_of_int n = Decimal n 0"


section \<open>The data of an order book side\<close>

text \<open>
  The classes \<open>Metadata\<close>, \<open>Token\<close>, \<open>PerpMarketDetails\<close>, \<open>AccountInfo\<close>, \<open>Order\<close> and
  the enumerations \<open>Side\<close>, \<open>OrderType\<close>, \<open>Version\<close> and \<open>layouts.DATA_TYPE\<close> are
  imported by \<open>orderbookside.py\<close>; the records below hold the fields that
  \<open>orderbookside.py\<close> and \<open>watchers.py\<close> read. Unsigned fields of the account are
  naturals, the others integers; a public key is its text.
\<close>

type_synonym public_key = string

datatype side = BUY | SELL

datatype order_type = UNKNOWN | LIMIT | IOC | POST_ONLY

datatype version = UNSPECIFIED | V1 | V2 | V3 | V4 | V5

text \<open>\<open>layouts.DATA_TYPE\<close>: the two kinds of side, and any other kind of account.\<close>

datatype data_type = Bids | Asks | OtherDataType nat

record metadata =
  data_type :: data_type
  meta_version :: version
  is_initialized :: bool

record token =
  decimals :: int

record perp_market_details =
  bids :: public_key
  asks :: public_key
  base_token :: token
  quote_token :: token
  base_lot_size :: int
  quote_lot_size :: int

record account_info =
  address :: public_key
  data :: "8 word list"

text \<open>
  A leaf holds \<open>key["price"]\<close>, \<open>key["order_id"]\<close>, \<open>quantity\<close>, \<open>owner\<close> and
  \<open>client_order_id\<close>.
\<close>

record leaf_node =
  key_price :: int
  key_order_id :: int
  leaf_quantity :: int
  leaf_owner :: public_key
  client_order_id :: int

text \<open>
  A node of the array, by its \<open>type_name\<close>: \<open>"inner"\<close> with \<open>children[0]\<close> and
  \<open>children[1]\<close>, \<open>"leaf"\<close>, and the two kinds the traversal passes over.
\<close>

datatype book_node =
    Uninitialized
  | Inner nat nat
  | Leaf leaf_node
  | Free nat

record order_book_side =
  account_info :: account_info
  version :: version
  meta_data :: metadata
  perp_market_details :: perp_market_details
  bump_index :: nat
  free_list_len :: nat
  free_list_head :: nat
  root_node :: nat
  leaf_count :: nat
  nodes :: "book_node list"

text \<open>\<open>Order(id, client_id, owner, side, price, quantity, order_type)\<close>.\<close>

record order =
  order_id :: int
  client_id :: int
  owner :: public_key
  side :: side
  price :: decimal
  quantity :: decimal
  order_type :: order_type


section \<open>\<open>OrderBookSide.orders\<close>\<close>

text \<open>
  The body of the \<open>"leaf"\<close> branch: the two conversions and the \<open>Order\<close> that is
  yielded. The division \<open>quote_lot_size / base_lot_size\<close> raises when \<open>base_lot_size\<close>
  is zero; \<open>base_factor\<close> is a power of ten and never zero.
\<close>

definition leaf_order :: "order_book_side \<Rightarrow> side \<Rightarrow> leaf_node \<Rightarrow> error + order" where
  "leaf_order self order_side node =
     (let price = dec_of_int (key_price node);
          quantity = dec_of_int (leaf_quantity node);
          decimals_differential =
            decimals (base_token (perp_market_details self))
              - decimals (quote_token (perp_market_details self));
          native_to_ui = dec_pow10 decimals_differential;
          quote_lot_size = dec_of_int (quote_lot_size (perp_market_details self));
          base_lot_size = dec_of_int (base_lot_size (perp_market_details self))
      in case dec_div quote_lot_size base_lot_size of
           Inl e \<Rightarrow> Inl e
         | Inr ratio \<Rightarrow>
             let actual_price = dec_mul (dec_mul price ratio) native_to_ui;
                 base_factor = dec_pow10 (decimals (base_token (perp_market_details self)))
             in case dec_div (dec_mul quantity base_lot_size) base_factor of
                  Inl e \<Rightarrow> Inl e
                | Inr actual_quantity \<Rightarrow>
                    Inr \<lparr>order_id = key_order_id node,
                         client_id = client_order_id node,
                         owner = leaf_owner node,
                         side = order_side,
                         price = actual_price,
                         quantity = actual_quantity,
                         order_type = UNKNOWN\<rparr>)"

text \<open>
  \<open>orders\<close> is a generator: it yields its orders one at a time, and a consumer sees the
  orders yielded so far even when the loop later raises or never ends. A run is what a
  consumer has seen after a number of iterations of the \<open>while\<close> loop: the orders
  yielded, the indices popped (in the order of the pops), how the run stands, and the
  object the method was called on, as the run leaves it.
\<close>

datatype outcome = Exhausted | Raised error | Running

record run =
  yielded :: "order list"
  visited :: "nat list"
  outcome :: outcome
  object :: order_book_side

text \<open>
  The \<open>while\<close> loop, with one unit of fuel for each iteration. \<open>stack.pop()\<close> takes the
  last element of the Python list, and an inner node rebinds \<open>stack\<close> to a list that
  starts with the two children: \<open>[children[0], children[1], *stack]\<close> for the buy side,
  \<open>[children[1], children[0], *stack]\<close> for the sell side. \<open>self.nodes[index]\<close> raises
  \<open>IndexError\<close> out of range. No statement of the loop assigns to a field of \<open>self\<close>.
\<close>

fun orders_loop :: "nat \<Rightarrow> order_book_side \<Rightarrow> side \<Rightarrow> nat list \<Rightarrow> run" where
  "orders_loop 0 self order_side stack =
     \<lparr>yielded = [], visited = [],
      outcome = (if stack = [] then Exhausted else Running), object = self\<rparr>"
| "orders_loop (Suc fuel) self order_side stack =
     (if stack = [] then \<lparr>yielded = [], visited = [], outcome = Exhausted, object = self\<rparr>
      else
        let index = last stack;
            stack = butlast stack
        in if length (nodes self) \<le> index then
             \<lparr>yielded = [], visited = [index], outcome = Raised IndexError, object = self\<rparr>
           else
             (case nodes self ! index of
                Leaf node \<Rightarrow>
                  (case leaf_order self order_side node of
                     Inl e \<Rightarrow>
                       \<lparr>yielded = [], visited = [index], outcome = Raised e, object = self\<rparr>
                   | Inr ord \<Rightarrow>
                       (let r = orders_loop fuel self order_side stack
                        in r\<lparr>yielded := ord # yielded r, visited := index # visited r\<rparr>))
              | Inner c0 c1 \<Rightarrow>
                  (let r = orders_loop fuel self order_side
                             (if order_side = BUY then c0 # c1 # stack else c1 # c0 # stack)
                   in r\<lparr>visited := index # visited r\<rparr>)
              | _ \<Rightarrow>
                  (let r = orders_loop fuel self order_side stack
                   in r\<lparr>visited := index # visited r\<rparr>)))"

text \<open>
  The method: nothing is yielded when \<open>leaf_count\<close> is zero; otherwise the side is
  \<open>BUY\<close> for \<open>Bids\<close> and \<open>SELL\<close> for every other data type, and the loop starts from
  \<open>[root_node]\<close>.
\<close>

definition orders :: "nat \<Rightarrow> order_book_side \<Rightarrow> run" where
  "orders fuel self =
     (if leaf_count self = 0 then
        \<lparr>yielded = [], visited = [], outcome = Exhausted, object = self\<rparr>
      else
        let order_side = (if data_type (meta_data self) = Bids then BUY else SELL)
        in orders_loop fuel self order_side [root_node self])"


section \<open>The body of \<open>orders\<close>, statement by statement\<close>

text \<open>
  What an invocation writes cannot be read off a function of the object alone, so the
  body is also given as the statements it is made of, run on the state of an invocation:
  the object \<open>self\<close> and the frame of local names \<open>order_side\<close>, \<open>stack\<close>, \<open>index\<close> and
  \<open>node\<close>. A statement binds local names, assigns to attributes of the object, yields,
  returns, or combines statements; the expressions of a statement read the whole state
  and may raise. The names \<open>price\<close> to \<open>actual_quantity\<close> of the leaf branch are the
  bindings inside \<open>leaf_order\<close>.
\<close>

record frame =
  order_side_var :: side
  stack_var :: "nat list"
  index_var :: nat
  node_var :: book_node

record invocation =
  self_obj :: order_book_side
  locals :: frame

datatype statement =
    Pass
  | Bind "invocation \<Rightarrow> error + frame"
  | SetAttr "invocation \<Rightarrow> error + order_book_side"
  | Yield "invocation \<Rightarrow> error + order"
  | Return
  | Seq statement statement
  | IfElse "invocation \<Rightarrow> bool" statement statement
  | While "invocation \<Rightarrow> bool" statement

datatype status = Normal | Returned | Raising error | OutOfFuel

text \<open>
  Running a statement gives the orders yielded, how the statement ended and the state it
  left. One unit of fuel is one iteration of a loop.
\<close>

fun exec :: "nat \<Rightarrow> statement \<Rightarrow> invocation \<Rightarrow> order list \<times> status \<times> invocation" where
  "exec fuel Pass s = ([], Normal, s)"
| "exec fuel (Bind f) s =
     (case f s of Inl e \<Rightarrow> ([], Raising e, s) | Inr l \<Rightarrow> ([], Normal, s\<lparr>locals := l\<rparr>))"
| "exec fuel (SetAttr f) s =
     (case f s of Inl e \<Rightarrow> ([], Raising e, s) | Inr obj \<Rightarrow> ([], Normal, s\<lparr>self_obj := obj\<rparr>))"
| "exec fuel (Yield f) s =
     (case f s of Inl e \<Rightarrow> ([], Raising e, s) | Inr ord \<Rightarrow> ([ord], Normal, s))"
| "exec fuel Return s = ([], Returned, s)"
| "exec fuel (Seq c1 c2) s =
     (case exec fuel c1 s of
        (ys, Normal, s') \<Rightarrow> (case exec fuel c2 s' of (zs, st, s'') \<Rightarrow> (ys @ zs, st, s''))
      | (ys, st, s') \<Rightarrow> (ys, st, s'))"
| "exec fuel (IfElse b c1 c2) s = (if b s then exec fuel c1 s else exec fuel c2 s)"
| "exec 0 (While b c) s = ([], if b s then OutOfFuel else Normal, s)"
| "exec (Suc fuel) (While b c) s =
     (if b s then
        (case exec fuel c s of
           (ys, Normal, s') \<Rightarrow>
             (case exec fuel (While b c) s' of (zs, st, s'') \<Rightarrow> (ys @ zs, st, s''))
         | (ys, st, s') \<Rightarrow> (ys, st, s'))
      else ([], Normal, s))"

definition yields_of :: "order list \<times> status \<times> invocation \<Rightarrow> order list" where
  "yields_of r = fst r"

definition status_of :: "order list \<times> status \<times> invocation \<Rightarrow> status" where
  "status_of r = fst (snd r)"

definition state_of :: "order list \<times> status \<times> invocation \<Rightarrow> invocation" where
  "state_of r = snd (snd r)"

text \<open>The \<open>type_name\<close> of a node.\<close>

fun type_name :: "book_node \<Rightarrow> string" where
  "type_name Uninitialized = ''uninitialized''"
| "type_name (Inner c0 c1) = ''inner''"
| "type_name (Leaf node) = ''leaf''"
| "type_name (Free n) = ''free''"

text \<open>
  The body of the \<open>while\<close> loop, lines 93 to 119: \<open>index = int(stack.pop())\<close>,
  \<open>node = self.nodes[index]\<close>, and the two branches on \<open>node.type_name\<close>. Reading the
  key of a node that has none, or the children of a node that has none, raises
  \<open>AttributeError\<close>.
\<close>

definition loop_body :: statement where
  "loop_body =
     Seq (Bind (\<lambda>s.
            if stack_var (locals s) = [] then Inl IndexError
            else Inr ((locals s)\<lparr>index_var := last (stack_var (locals s)),
                                stack_var := butlast (stack_var (locals s))\<rparr>)))
    (Seq (Bind (\<lambda>s.
            if length (nodes (self_obj s)) \<le> index_var (locals s) then Inl IndexError
            else Inr ((locals s)\<lparr>node_var := nodes (self_obj s) ! index_var (locals s)\<rparr>)))
         (IfElse (\<lambda>s. type_name (node_var (locals s)) = ''leaf'')
            (Yield (\<lambda>s.
               case node_var (locals s) of
                 Leaf node \<Rightarrow> leaf_order (self_obj s) (order_side_var (locals s)) node
               | _ \<Rightarrow> Inl AttributeError))
            (IfElse (\<lambda>s. type_name (node_var (locals s)) = ''inner'')
               (IfElse (\<lambda>s. order_side_var (locals s) = BUY)
                  (Bind (\<lambda>s.
                     case node_var (locals s) of
                       Inner c0 c1 \<Rightarrow>
                         Inr ((locals s)\<lparr>stack_var := c0 # c1 # stack_var (locals s)\<rparr>)
                     | _ \<Rightarrow> Inl AttributeError))
                  (Bind (\<lambda>s.
                     case node_var (locals s) of
                       Inner c0 c1 \<Rightarrow>
                         Inr ((locals s)\<lparr>stack_var := c1 # c0 # stack_var (locals s)\<rparr>)
                     | _ \<Rightarrow> Inl AttributeError)))
               Pass)))"

text \<open>The whole body, lines 83 to 119.\<close>

definition orders_body :: statement where
  "orders_body =
     Seq (IfElse (\<lambda>s. leaf_count (self_obj s) = 0) Return Pass)
    (Seq (IfElse (\<lambda>s. data_type (meta_data (self_obj s)) = Bids)
            (Bind (\<lambda>s. Inr ((locals s)\<lparr>order_side_var := BUY\<rparr>)))
            (Bind (\<lambda>s. Inr ((locals s)\<lparr>order_side_var := SELL\<rparr>))))
    (Seq (Bind (\<lambda>s. Inr ((locals s)\<lparr>stack_var := [root_node (self_obj s)]\<rparr>)))
         (While (\<lambda>s. 0 < length (stack_var (locals s))) loop_body)))"

text \<open>
  An invocation runs the body on the object, in a new frame. No local name is bound
  when the body starts; the frame it starts in stands for whatever the unbound names
  hold.
\<close>

definition invoke :: "nat \<Rightarrow> frame \<Rightarrow> order_book_side \<Rightarrow> order list \<times> status \<times> invocation" where
  "invoke fuel unbound self = exec fuel orders_body \<lparr>self_obj = self, locals = unbound\<rparr>"

text \<open>A statement that holds no assignment to an attribute of the object.\<close>

fun assigns_no_attribute :: "statement \<Rightarrow> bool" where
  "assigns_no_attribute (SetAttr f) = False"
| "assigns_no_attribute (Seq c1 c2) = (assigns_no_attribute c1 \<and> assigns_no_attribute c2)"
| "assigns_no_attribute (IfElse b c1 c2) = (assigns_no_attribute c1 \<and> assigns_no_attribute c2)"
| "assigns_no_attribute (While b c) = assigns_no_attribute c"
| "assigns_no_attribute c = True"

text \<open>How a run of the generator stands, from how its body ended.\<close>

fun outcome_of :: "status \<Rightarrow> outcome" where
  "outcome_of Normal = Exhausted"
| "outcome_of Returned = Exhausted"
| "outcome_of (Raising e) = Raised e"
| "outcome_of OutOfFuel = Running"


section \<open>\<open>OrderBookSide.parse\<close> and \<open>OrderBookSide.load\<close>\<close>

text \<open>
  What \<open>layouts.ORDERBOOK_SIDE.parse\<close> returns: the header fields and the node array.
\<close>

record layout_header =
  layout_meta_data :: metadata
  layout_bump_index :: nat
  layout_free_list_len :: nat
  layout_free_list_head :: nat
  layout_root_node :: nat
  layout_leaf_count :: nat

record orderbook_side_layout = layout_header +
  layout_nodes :: "book_node list"

text \<open>
  The module \<open>layouts\<close> and the module \<open>metadata\<close> are not among the sources, so the
  layout is a parameter: its widths and the decoders of its parts. A decoder reads the
  bytes it is given and returns a value or raises.
\<close>

record orderbook_side_codec =
  header_size :: nat
  node_size :: nat
  capacity :: nat
  decode_header :: "8 word list \<Rightarrow> decode_error + layout_header"
  decode_node :: "8 word list \<Rightarrow> decode_error + book_node"
  metadata_from_layout :: "metadata \<Rightarrow> decode_error + metadata"

text \<open>
  Modelled from the spec: \<open>layouts.ORDERBOOK_SIDE.sizeof()\<close>; the module \<open>layouts\<close> is
  not among the sources. The exact total size is the header size plus the capacity times
  the node size.
\<close>

definition ORDERBOOK_SIDE_sizeof :: "orderbook_side_codec \<Rightarrow> nat" where
  "ORDERBOOK_SIDE_sizeof c = header_size c + capacity c * node_size c"

text \<open>Decoding the elements of an array in order; the first exception ends it.\<close>

fun decode_all :: "('a \<Rightarrow> decode_error + 'b) \<Rightarrow> 'a list \<Rightarrow> decode_error + 'b list" where
  "decode_all f [] = Inr []"
| "decode_all f (x # xs) =
     (case f x of
        Inl e \<Rightarrow> Inl e
      | Inr y \<Rightarrow> (case decode_all f xs of Inl e \<Rightarrow> Inl e | Inr ys \<Rightarrow> Inr (y # ys)))"

text \<open>
  Modelled from the spec: \<open>layouts.ORDERBOOK_SIDE.parse\<close>; the module \<open>layouts\<close> is not
  among the sources. The header fields are read first, at fixed offsets, then the node
  array is decoded element by element, each element's leading discriminant selecting the
  variant. The spec leaves open what a malformed discriminant does, so the decoders of
  the codec decide it: they return a value or raise.
\<close>

definition ORDERBOOK_SIDE_parse ::
  "orderbook_side_codec \<Rightarrow> 8 word list \<Rightarrow> decode_error + orderbook_side_layout" where
  "ORDERBOOK_SIDE_parse c bytes =
     (case decode_header c (take (header_size c) bytes) of
        Inl e \<Rightarrow> Inl e
      | Inr h \<Rightarrow>
          (let body = drop (header_size c) bytes
           in case decode_all (decode_node c)
                     (map (\<lambda>i. take (node_size c) (drop (i * node_size c) body))
                        [0 ..< capacity c]) of
                Inl e \<Rightarrow> Inl e
              | Inr ns \<Rightarrow>
                  Inr \<lparr>layout_meta_data = layout_meta_data h,
                       layout_bump_index = layout_bump_index h,
                       layout_free_list_len = layout_free_list_len h,
                       layout_free_list_head = layout_free_list_head h,
                       layout_root_node = layout_root_node h,
                       layout_leaf_count = layout_leaf_count h,
                       layout_nodes = ns\<rparr>))"

text \<open>
  \<open>from_layout\<close> converts the metadata with \<open>Metadata.from_layout\<close>, the decoder of the
  codec, and takes the other fields over.
\<close>

definition from_layout ::
  "orderbook_side_codec \<Rightarrow> orderbook_side_layout \<Rightarrow> account_info \<Rightarrow> version
     \<Rightarrow> perp_market_details \<Rightarrow> error + order_book_side" where
  "from_layout c layout info ver details =
     (case metadata_from_layout c (layout_meta_data layout) of
        Inl e \<Rightarrow> Inl (LayoutError e)
      | Inr meta \<Rightarrow>
          (let bump_index = layout_bump_index layout;
               free_list_len = layout_free_list_len layout;
               free_list_head = layout_free_list_head layout;
               root_node = layout_root_node layout;
               leaf_count = layout_leaf_count layout;
               nodes = layout_nodes layout
           in Inr \<lparr>account_info = info, version = ver, meta_data = meta,
                   perp_market_details = details, bump_index = bump_index,
                   free_list_len = free_list_len, free_list_head = free_list_head,
                   root_node = root_node, leaf_count = leaf_count, nodes = nodes\<rparr>))"

text \<open>
  The context stands for the ledger the RPC client reads: what is stored at each address.
\<close>

record rpc_context =
  accounts :: "public_key \<Rightarrow> account_info option"

text \<open>
  Modelled from the spec: \<open>AccountInfo.load\<close>; the module \<open>accountinfo\<close> is not among the
  sources. The synchronous fetch returns the raw account of an address, or nothing.
\<close>

definition AccountInfo_load :: "rpc_context \<Rightarrow> public_key \<Rightarrow> account_info option" where
  "AccountInfo_load context addr = accounts context addr"

text \<open>
  \<open>parse\<close> raises an \<open>Exception\<close> whose message holds the length of the data and the
  expected size; the error value carries the two numbers. An exception of the layout
  decoder or of \<open>from_layout\<close> passes through.
\<close>

definition parse ::
  "orderbook_side_codec \<Rightarrow> rpc_context \<Rightarrow> account_info \<Rightarrow> perp_market_details
     \<Rightarrow> error + order_book_side" where
  "parse c context info details =
     (let data = data info
      in if length data \<noteq> ORDERBOOK_SIDE_sizeof c then
           Inl (DataLengthMismatch (length data) (ORDERBOOK_SIDE_sizeof c))
         else
           (case ORDERBOOK_SIDE_parse c data of
              Inl e \<Rightarrow> Inl (LayoutError e)
            | Inr layout \<Rightarrow> from_layout c layout info V1 details))"

definition load ::
  "orderbook_side_codec \<Rightarrow> rpc_context \<Rightarrow> public_key \<Rightarrow> perp_market_details
     \<Rightarrow> error + order_book_side" where
  "load c context addr details =
     (case AccountInfo_load context addr of
        None \<Rightarrow> Inl (AccountNotFound addr)
      | Some info \<Rightarrow> parse c context info details)"


section \<open>\<open>build_perp_orderbook_side_watcher\<close>\<close>

text \<open>
  \<open>watchers.py\<close> imports \<open>PerpOrderBookSide\<close> and \<open>OrderBookSideType\<close> from
  \<open>orderbookside.py\<close>, which defines the class under the name \<open>OrderBookSide\<close>: the
  watcher's \<open>PerpOrderBookSide.parse\<close> is \<open>parse\<close> above, called with the same three
  arguments, and \<open>OrderBookSideType\<close> is the choice between the two sides.

  A call of \<open>orders()\<close> makes a generator object and runs none of its body. The object
  is single-use: iterating it runs the loop on from where the last iteration left it, and
  once the body has ended, exhausted or by raising, every further iteration yields
  nothing. A generator object is the side it was made on and the number of iterations of
  the loop it has run.
\<close>

datatype OrderBookSideType = BIDS | ASKS

record perp_market =
  underlying_perp_market :: perp_market_details

datatype orders_generator = OrdersGenerator order_book_side nat


text \<open>
  Modelled from the spec: \<open>WebSocketAccountSubscription\<close>, its publisher,
  \<open>WebSocketSubscriptionManager.add\<close>, \<open>HealthCheck.add\<close> and
  \<open>LatestItemObserverSubscriber\<close>; the modules \<open>websocketsubscription\<close>, \<open>healthcheck\<close> and
  \<open>observables\<close> are not among the sources. A subscription binds an address to a decode
  function and holds the observers subscribed to its publisher; creating it and adding it
  to the manager delivers nothing. A snapshot cell holds exactly one value, the one it was
  created with until a notification replaces it. The registry records the feeds it is
  given. Objects are kept in stores, so that the manager and the builder share the
  subscription they both hold, and a cell and its readers the generator object it holds.
\<close>

record subscription =
  sub_address :: public_key
  sub_constructor :: "account_info \<Rightarrow> error + orders_generator"
  subscribers :: "nat list"

record watcher_world =
  subscriptions :: "subscription list"
  observers :: "orders_generator list"
  manager :: "nat list"
  health_check :: "(string \<times> nat) list"

text \<open>
  Modelled from the spec: the constructor of \<open>WebSocketAccountSubscription\<close>. The new
  subscription has no subscriber yet, and nothing is delivered.
\<close>

definition new_subscription ::
  "public_key \<Rightarrow> (account_info \<Rightarrow> error + orders_generator) \<Rightarrow> watcher_world
     \<Rightarrow> nat \<times> watcher_world" where
  "new_subscription addr constructor w =
     (length (subscriptions w),
      w\<lparr>subscriptions :=
          subscriptions w
            @ [\<lparr>sub_address = addr, sub_constructor = constructor, subscribers = []\<rparr>]\<rparr>)"

text \<open>
  Modelled from the spec: \<open>WebSocketSubscriptionManager.add\<close>. The manager keeps the
  subscription.
\<close>

definition manager_add :: "nat \<Rightarrow> watcher_world \<Rightarrow> watcher_world" where
  "manager_add s w = w\<lparr>manager := manager w @ [s]\<rparr>"

text \<open>
  Modelled from the spec: the constructor of \<open>LatestItemObserverSubscriber\<close>. The cell
  is created holding its initial value.
\<close>

definition new_observer :: "orders_generator \<Rightarrow> watcher_world \<Rightarrow> nat \<times> watcher_world" where
  "new_observer initial w = (length (observers w), w\<lparr>observers := observers w @ [initial]\<rparr>)"

text \<open>
  Modelled from the spec: \<open>publisher.subscribe\<close>. The observer joins the subscribers of
  the subscription's publisher; subscribing delivers nothing.
\<close>

definition publisher_subscribe :: "nat \<Rightarrow> nat \<Rightarrow> watcher_world \<Rightarrow> watcher_world" where
  "publisher_subscribe s observer w =
     w\<lparr>subscriptions :=
         (subscriptions w)[s := (subscriptions w ! s)
            \<lparr>subscribers := subscribers (subscriptions w ! s) @ [observer]\<rparr>]\<rparr>"

text \<open>
  Modelled from the spec: \<open>HealthCheck.add\<close>. The registry records the feed under its
  name.
\<close>

definition health_check_add :: "string \<Rightarrow> nat \<Rightarrow> watcher_world \<Rightarrow> watcher_world" where
  "health_check_add name s w = w\<lparr>health_check := health_check w @ [(name, s)]\<rparr>"



text \<open>
  The builder. An exception leaves the world as it was when it was raised; both raises
  come before the first object is created.
\<close>

definition build_perp_orderbook_side_watcher ::
  "orderbook_side_codec \<Rightarrow> rpc_context \<Rightarrow> perp_market \<Rightarrow> OrderBookSideType \<Rightarrow> watcher_world
     \<Rightarrow> (error + nat) \<times> watcher_world" where
  "build_perp_orderbook_side_watcher c context perp_market side_type w =
     (let orderbook_address =
            (if side_type = BIDS then bids (underlying_perp_market perp_market)
             else asks (underlying_perp_market perp_market))
      in case AccountInfo_load context orderbook_address of
           None \<Rightarrow> (Inl (OrderBookSideNotFound orderbook_address), w)
         | Some orderbook_side_info \<Rightarrow>
             (case parse c context orderbook_side_info (underlying_perp_market perp_market) of
                Inl e \<Rightarrow> (Inl e, w)
              | Inr initial_orderbook_side \<Rightarrow>
                  let (orders_subscription, w) =
                        new_subscription orderbook_address
                          (\<lambda>info.
                             map_sum id (\<lambda>side. OrdersGenerator side 0)
                               (parse c context info (underlying_perp_market perp_market)))
                          w;
                      w = manager_add orders_subscription w;
                      (latest_orders_observer, w) =
                        new_observer (OrdersGenerator initial_orderbook_side 0) w;
                      w = publisher_subscribe orders_subscription latest_orders_observer w;
                      w = health_check_add ''orderbook_side_subscription'' orders_subscription w
                  in (Inr latest_orders_observer, w)))"


section \<open>Trees in the node array\<close>

text \<open>
  The shape of what can be reached from an index: a fork at an inner node, with the
  shapes of \<open>children[0]\<close> and \<open>children[1]\<close>, and a tip at every other node. The node
  array unfolds to a shape from an index when every index met is in range and the nodes
  are as the shape says. A shape is finite, so an array that unfolds from its root holds
  no cycle that can be reached from the root.
\<close>

datatype shape = Tip | Fork shape shape

fun unfolds :: "book_node list \<Rightarrow> nat \<Rightarrow> shape \<Rightarrow> bool" where
  "unfolds ns i Tip =
     (i < length ns \<and> (case ns ! i of Inner c0 c1 \<Rightarrow> False | _ \<Rightarrow> True))"
| "unfolds ns i (Fork l r) =
     (i < length ns \<and> (case ns ! i of Inner c0 c1 \<Rightarrow> unfolds ns c0 l \<and> unfolds ns c1 r | _ \<Rightarrow> False))"

fun nodes_count :: "shape \<Rightarrow> nat" where
  "nodes_count Tip = 1"
| "nodes_count (Fork l r) = 1 + nodes_count l + nodes_count r"

text \<open>
  The keys of the leaves below an index, from \<open>children[0]\<close> to \<open>children[1]\<close>, and the
  venue's invariant: at every inner node each key below \<open>children[0]\<close> is less than each
  key below \<open>children[1]\<close>. A key is a price and an order id.
\<close>

fun leaf_keys :: "book_node list \<Rightarrow> nat \<Rightarrow> shape \<Rightarrow> (int \<times> int) list" where
  "leaf_keys ns i Tip =
     (case ns ! i of Leaf node \<Rightarrow> [(key_price node, key_order_id node)] | _ \<Rightarrow> [])"
| "leaf_keys ns i (Fork l r) =
     (case ns ! i of Inner c0 c1 \<Rightarrow> leaf_keys ns c0 l @ leaf_keys ns c1 r | _ \<Rightarrow> [])"

definition key_less :: "int \<times> int \<Rightarrow> int \<times> int \<Rightarrow> bool" where
  "key_less a b = (fst a < fst b \<or> (fst a = fst b \<and> snd a < snd b))"

fun key_ordered :: "book_node list \<Rightarrow> nat \<Rightarrow> shape \<Rightarrow> bool" where
  "key_ordered ns i Tip = True"
| "key_ordered ns i (Fork l r) =
     (case ns ! i of
        Inner c0 c1 \<Rightarrow>
          key_ordered ns c0 l \<and> key_ordered ns c1 r
          \<and> list_all (\<lambda>a. list_all (key_less a) (leaf_keys ns c1 r)) (leaf_keys ns c0 l)
      | _ \<Rightarrow> False)"


section \<open>Three resting orders\<close>

text \<open>
  A market with six decimals on both sides and lots of one unit, and the crit-bit tree
  of three orders at the prices 1, 2 and 3: the root separates the price 1 from the
  prices 2 and 3, a second inner node separates 2 from 3. The bids hold the lesser
  subtree of the root as a leaf; the asks hold the same keys with the inner node on the
  lesser side.
\<close>

definition example_market :: perp_market_details where
  "example_market =
     \<lparr>bids = ''bids'', asks = ''asks'', base_token = \<lparr>decimals = 6\<rparr>,
      quote_token = \<lparr>decimals = 6\<rparr>, base_lot_size = 1, quote_lot_size = 1\<rparr>"

definition example_leaf :: "int \<Rightarrow> book_node" where
  "example_leaf p =
     Leaf \<lparr>key_price = p, key_order_id = p, leaf_quantity = 1, leaf_owner = ''owner'',
           client_order_id = 0\<rparr>"

definition example_side :: "data_type \<Rightarrow> book_node list \<Rightarrow> order_book_side" where
  "example_side t ns =
     \<lparr>account_info = \<lparr>address = ''side'', data = []\<rparr>, version = V1,
      meta_data = \<lparr>data_type = t, meta_version = V1, is_initialized = True\<rparr>,
      perp_market_details = example_market, bump_index = 5, free_list_len = 0,
      free_list_head = 0, root_node = 0, leaf_count = 3, nodes = ns\<rparr>"

definition example_bids :: order_book_side where
  "example_bids =
     example_side Bids [Inner 1 2, example_leaf 1, Inner 3 4, example_leaf 2, example_leaf 3]"

definition example_asks :: order_book_side where
  "example_asks =
     example_side Asks [Inner 1 4, Inner 2 3, example_leaf 1, example_leaf 2, example_leaf 3]"


text \<open>The two orders a price sequence can be asked to have.\<close>

definition non_increasing :: "rat list \<Rightarrow> bool" where
  "non_increasing xs = sorted_wrt (\<lambda>a b. b \<le> a) xs"

definition non_decreasing :: "rat list \<Rightarrow> bool" where
  "non_decreasing xs = sorted_wrt (\<lambda>a b. a \<le> b) xs"

definition example_order :: "side \<Rightarrow> int \<Rightarrow> order" where
  "example_order s p =
     \<lparr>order_id = p, client_id = 0, owner = ''owner'', side = s, price = Decimal p 0,
      quantity = Decimal 1 (- 6), order_type = UNKNOWN\<rparr>"

definition example_bids_shape :: shape where
  "example_bids_shape = Fork Tip (Fork Tip Tip)"

definition example_asks_shape :: shape where
  "example_asks_shape = Fork (Fork Tip Tip) Tip"

text \<open>
  The worked example of the scaling: six decimals on both sides, a base lot of 100, a
  quote lot of 1, and one resting order at the native price 500 for the native quantity
  200.
\<close>

definition worked_market :: perp_market_details where
  "worked_market =
     \<lparr>bids = ''bids'', asks = ''asks'', base_token = \<lparr>decimals = 6\<rparr>,
      quote_token = \<lparr>decimals = 6\<rparr>, base_lot_size = 100, quote_lot_size = 1\<rparr>"

definition worked_leaf :: leaf_node where
  "worked_leaf =
     \<lparr>key_price = 500, key_order_id = 1, leaf_quantity = 200, leaf_owner = ''owner'',
      client_order_id = 0\<rparr>"

definition worked_side :: order_book_side where
  "worked_side =
     \<lparr>account_info = \<lparr>address = ''side'', data = []\<rparr>, version = V1,
      meta_data = \<lparr>data_type = Bids, meta_version = V1, is_initialized = True\<rparr>,
      perp_market_details = worked_market, bump_index = 1, free_list_len = 0,
      free_list_head = 0, root_node = 0, leaf_count = 1, nodes = [Leaf worked_leaf]\<rparr>"

definition worked_order :: order where
  "worked_order =
     \<lparr>order_id = 1, client_id = 0, owner = ''owner'', side = BUY, price = Decimal 500 (- 2),
      quantity = Decimal 2 (- 2), order_type = UNKNOWN\<rparr>"

text \<open>
  A market whose base lot is 3 and whose quote lot is 1, with one resting order at the
  native price 3 for the native quantity 1.
\<close>

definition thirds_market :: perp_market_details where
  "thirds_market =
     \<lparr>bids = ''bids'', asks = ''asks'', base_token = \<lparr>decimals = 6\<rparr>,
      quote_token = \<lparr>decimals = 6\<rparr>, base_lot_size = 3, quote_lot_size = 1\<rparr>"

definition thirds_leaf :: leaf_node where
  "thirds_leaf =
     \<lparr>key_price = 3, key_order_id = 1, leaf_quantity = 1, leaf_owner = ''owner'',
      client_order_id = 0\<rparr>"

definition thirds_side :: order_book_side where
  "thirds_side =
     \<lparr>account_info = \<lparr>address = ''side'', data = []\<rparr>, version = V1,
      meta_data = \<lparr>data_type = Bids, meta_version = V1, is_initialized = True\<rparr>,
      perp_market_details = thirds_market, bump_index = 1, free_list_len = 0,
      free_list_head = 0, root_node = 0, leaf_count = 1, nodes = [Leaf thirds_leaf]\<rparr>"

definition thirds_order :: order where
  "thirds_order =
     \<lparr>order_id = 1, client_id = 0, owner = ''owner'', side = BUY,
      price = Decimal 9999999999999999999999999999 (- 28),
      quantity = Decimal 3 (- 6), order_type = UNKNOWN\<rparr>"

text \<open>
  The two conversions as the formulas read in exact arithmetic, on rational numbers:
  \<open>native_price * (quote_lot_size / base_lot_size) * 10 ^ (base_decimals - quote_decimals)\<close>
  and \<open>native_quantity * base_lot_size / 10 ^ base_decimals\<close>.
\<close>

definition rat_pow10 :: "int \<Rightarrow> rat" where
  "rat_pow10 n = (if 0 \<le> n then 10 ^ nat n else 1 / 10 ^ nat (- n))"

definition exact_price :: "perp_market_details \<Rightarrow> int \<Rightarrow> rat" where
  "exact_price m native_price =
     of_int native_price * (of_int (quote_lot_size m) / of_int (base_lot_size m))
       * rat_pow10 (decimals (base_token m) - decimals (quote_token m))"

definition exact_quantity :: "perp_market_details \<Rightarrow> int \<Rightarrow> rat" where
  "exact_quantity m native_quantity =
     of_int native_quantity * of_int (base_lot_size m) / rat_pow10 (decimals (base_token m))"

text \<open>
  A small layout for examples: a header of one byte, two nodes of one byte each. The
  header byte 5 stands for bids with the root at index 0 and one leaf, every other header
  byte for asks. The node bytes 0 to 3 stand for an uninitialized node, an inner node, a
  leaf at the price 1 and a free node; the node decoder of this example raises on every
  other byte. The ledger of the example holds an account of three bytes at the address
  of the bids and nothing at the address of the asks.
\<close>

definition example_codec :: orderbook_side_codec where
  "example_codec =
     \<lparr>header_size = 1, node_size = 1, capacity = 2,
      decode_header = (\<lambda>bs.
        Inr \<lparr>layout_meta_data =
               \<lparr>data_type = (if bs = [5] then Bids else Asks), meta_version = V1,
                is_initialized = True\<rparr>,
             layout_bump_index = 2, layout_free_list_len = 0, layout_free_list_head = 0,
             layout_root_node = 0, layout_leaf_count = 1\<rparr>),
      decode_node = (\<lambda>bs.
        if bs = [0] then Inr Uninitialized
        else if bs = [1] then Inr (Inner 0 0)
        else if bs = [2] then Inr (example_leaf 1)
        else if bs = [3] then Inr (Free 0)
        else Inl (UnknownDiscriminant (hd bs))),
      metadata_from_layout = Inr\<rparr>"

definition example_account :: account_info where
  "example_account = \<lparr>address = ''bids'', data = [5, 2, 0]\<rparr>"


definition example_context :: rpc_context where
  "example_context =
     \<lparr>accounts = (\<lambda>a. if a = ''bids'' then Some example_account else None)\<rparr>"

definition example_perp_market :: perp_market where
  "example_perp_market = \<lparr>underlying_perp_market = example_market\<rparr>"

definition empty_world :: watcher_world where
  "empty_world = \<lparr>subscriptions = [], observers = [], manager = [], health_check = []\<rparr>"



section \<open>Facts about the decimal operations\<close>

lemma ndigits_pos: "0 < ndigits n"
  by (subst ndigits.simps) simp

lemma ndigits_le_iff: "ndigits n \<le> Suc k \<longleftrightarrow> n < 10 ^ Suc k"
proof (induction k arbitrary: n)
  case 0
  show ?case
    using ndigits_pos [of "n div 10"] by (subst ndigits.simps) auto
next
  case (Suc k)
  show ?case
  proof (cases "n < 10")
    case True
    have "(10::nat) \<le> 10 ^ Suc (Suc k)" by simp
    with True have "n < 10 ^ Suc (Suc k)" by (rule less_le_trans)
    moreover from True have "ndigits n = 1" by (subst ndigits.simps) simp
    ultimately show ?thesis by simp
  next
    case False
    then have "ndigits n = Suc (ndigits (n div 10))" by (subst ndigits.simps) simp
    then have "ndigits n \<le> Suc (Suc k) \<longleftrightarrow> n div 10 < 10 ^ Suc k"
      using Suc.IH [of "n div 10"] by simp
    also have "\<dots> \<longleftrightarrow> n < 10 ^ Suc (Suc k)"
      by (simp add: div_less_iff_less_mult mult.commute)
    finally show ?thesis .
  qed
qed

lemma ndigits_eqI: "10 ^ k \<le> n \<Longrightarrow> n < 10 ^ Suc k \<Longrightarrow> ndigits n = Suc k"
proof -
  assume lo: "10 ^ k \<le> n" and hi: "n < 10 ^ Suc k"
  from hi have "ndigits n \<le> Suc k" by (simp only: ndigits_le_iff)
  moreover have "\<not> ndigits n \<le> k"
  proof (cases k)
    case 0
    then show ?thesis using ndigits_pos [of n] by simp
  next
    case (Suc j)
    then show ?thesis using lo by (simp add: ndigits_le_iff)
  qed
  ultimately show ?thesis by simp
qed

lemma dec_fix_small: "nat \<bar>c\<bar> < 10 ^ 28 \<Longrightarrow> dec_fix (Decimal c e) = Decimal c e"
proof -
  assume "nat \<bar>c\<bar> < 10 ^ 28"
  then have "nat \<bar>c\<bar> < 10 ^ Suc 27" by simp
  then have "ndigits (nat \<bar>c\<bar>) \<le> Suc 27" by (simp only: ndigits_le_iff)
  then show ?thesis by (simp add: dec_fix_def prec_def)
qed

lemma dec_mul_small:
  "nat \<bar>ca * cb\<bar> < 10 ^ 28 \<Longrightarrow>
   dec_mul (Decimal ca ea) (Decimal cb eb) = Decimal (ca * cb) (ea + eb)"
  by (simp add: dec_mul_def dec_fix_small)

lemma strip_zeros_all: "strip_zeros (c * 10 ^ k) (ideal - int k) ideal = (c, ideal)"
proof (induction k)
  case 0
  show ?case by (subst strip_zeros.simps) simp
next
  case (Suc k)
  have "strip_zeros (c * 10 ^ Suc k) (ideal - int (Suc k)) ideal
        = strip_zeros (c * 10 ^ k) (ideal - int k) ideal"
    by (subst strip_zeros.simps) (simp add: algebra_simps)
  with Suc show ?case by simp
qed

lemma strip_zeros_some:
  "c mod 10 \<noteq> 0 \<Longrightarrow> e + int k \<le> ideal \<Longrightarrow> strip_zeros (c * 10 ^ k) e ideal = (c, e + int k)"
proof (induction k arbitrary: e)
  case 0
  then show ?case by (subst strip_zeros.simps) simp
next
  case (Suc k)
  have "strip_zeros (c * 10 ^ Suc k) e ideal = strip_zeros (c * 10 ^ k) (e + 1) ideal"
    using Suc.prems by (subst strip_zeros.simps) (simp add: algebra_simps)
  also have "\<dots> = (c, e + 1 + int k)"
    using Suc.prems by (intro Suc.IH) auto
  finally show ?case by (simp add: algebra_simps)
qed

lemma dec_div_exact:
  assumes ca: "ca \<noteq> 0" and cb: "cb \<noteq> 0"
    and eq: "nat \<bar>ca\<bar> * 10 ^ j = m * nat \<bar>cb\<bar>"
    and m10: "m mod 10 \<noteq> 0 \<or> j = 0"
    and m: "m < 10 ^ 28"
    and j: "int j \<le> int (ndigits (nat \<bar>cb\<bar>)) - int (ndigits (nat \<bar>ca\<bar>)) + 29"
  shows "dec_div (Decimal ca ea) (Decimal cb eb)
         = Inr (Decimal (sgn ca * sgn cb * int m) (ea - eb - int j))"
proof -
  define shift where
    "shift = int (ndigits (nat \<bar>cb\<bar>)) - int (ndigits (nat \<bar>ca\<bar>)) + int prec + 1"
  define k where "k = nat shift - j"
  have shift0: "0 \<le> shift" and kj: "nat shift = j + k" and sk: "shift = int j + int k"
    using j by (simp_all add: shift_def k_def prec_def)
  have pos: "0 < nat \<bar>cb\<bar>" using cb by simp
  have num: "nat \<bar>ca\<bar> * 10 ^ nat shift = (m * 10 ^ k) * nat \<bar>cb\<bar>"
    using eq by (simp add: kj power_add algebra_simps)
  have dv: "nat \<bar>ca\<bar> * 10 ^ nat shift div nat \<bar>cb\<bar> = m * 10 ^ k"
    using pos by (simp add: num)
  have md: "nat \<bar>ca\<bar> * 10 ^ nat shift mod nat \<bar>cb\<bar> = 0"
    by (simp add: num)
  have strip: "strip_zeros (m * 10 ^ k) (ea - eb - shift) (ea - eb) = (m, ea - eb - int j)"
  proof (cases "j = 0")
    case True
    then have "ea - eb - shift = (ea - eb) - int k" by (simp add: sk)
    then show ?thesis using True by (simp add: strip_zeros_all)
  next
    case False
    with m10 have "m mod 10 \<noteq> 0" by simp
    then have "strip_zeros (m * 10 ^ k) (ea - eb - shift) (ea - eb) = (m, ea - eb - shift + int k)"
      by (rule strip_zeros_some) (simp add: sk)
    then show ?thesis by (simp add: sk)
  qed
  have fixd: "dec_fix (Decimal (sgn ca * sgn cb * int m) (ea - eb - int j))
             = Decimal (sgn ca * sgn cb * int m) (ea - eb - int j)"
  proof (rule dec_fix_small)
    have "\<bar>sgn ca * sgn cb * int m\<bar> = int m"
      using ca cb by (simp add: abs_mult abs_sgn_eq)
    then show "nat \<bar>sgn ca * sgn cb * int m\<bar> < 10 ^ 28" using m by simp
  qed
  show ?thesis
    by (simp only: dec_div_def decimal.sel ca cb if_False Let_def shift_def [symmetric]
        shift0 if_True dv md simp_thms strip prod.case fixd)
qed

lemma ndigits_digit: "n < 10 \<Longrightarrow> ndigits n = 1"
  by (subst ndigits.simps) simp



section \<open>Facts about the loop\<close>

lemma dec_div_Inr: "coefficient b \<noteq> 0 \<Longrightarrow> \<exists>d. dec_div a b = Inr d"
  by (simp add: dec_div_def Let_def case_prod_beta)

lemma dec_div_Inl: "dec_div a b = Inl e \<Longrightarrow> coefficient b = 0"
  using dec_div_Inr [of b a] by (cases "coefficient b = 0") auto

lemma dec_pow10_nonzero: "coefficient (dec_pow10 n) \<noteq> 0"
  by (simp add: dec_pow10_def)

lemma leaf_order_fields:
  "leaf_order self s node = Inr ord \<Longrightarrow>
   order_id ord = key_order_id node \<and> client_id ord = client_order_id node
   \<and> owner ord = leaf_owner node \<and> side ord = s \<and> order_type ord = UNKNOWN"
  by (auto simp: leaf_order_def Let_def split: sum.splits)

lemma leaf_order_total:
  assumes "base_lot_size (perp_market_details self) \<noteq> 0"
  shows "\<exists>ord. leaf_order self s node = Inr ord"
proof -
  from assms obtain ratio where
    r: "dec_div (dec_of_int (quote_lot_size (perp_market_details self)))
          (dec_of_int (base_lot_size (perp_market_details self))) = Inr ratio"
    using dec_div_Inr [of "dec_of_int (base_lot_size (perp_market_details self))"]
    by (auto simp: dec_of_int_def)
  obtain q where
    q: "dec_div (dec_mul (dec_of_int (leaf_quantity node))
            (dec_of_int (base_lot_size (perp_market_details self))))
          (dec_pow10 (decimals (base_token (perp_market_details self)))) = Inr q"
    using dec_div_Inr [OF dec_pow10_nonzero] by blast
  show ?thesis by (simp add: leaf_order_def Let_def r q)
qed

lemma loop_object: "object (orders_loop fuel self s stack) = self"
  by (induction fuel arbitrary: stack) (simp_all add: Let_def split: book_node.splits sum.splits)

lemma loop_outcome_update [simp]:
  "outcome (r\<lparr>yielded := ys, visited := vs\<rparr>) = outcome r" "outcome (r\<lparr>visited := vs\<rparr>) = outcome r"
  by simp_all

lemma loop_yield_bound: "length (yielded (orders_loop fuel self s stack)) \<le> fuel"
proof (induction fuel arbitrary: stack)
  case 0
  show ?case by simp
next
  case (Suc fuel)
  have a: "length (yielded (orders_loop fuel self s st)) \<le> Suc fuel" for st
    using Suc [of st] by simp
  show ?case
    using Suc a by (simp add: Let_def split: book_node.splits sum.splits)
qed

lemma loop_yields_leaves:
  "ord \<in> set (yielded (orders_loop fuel self s stack)) \<Longrightarrow>
   \<exists>i node. i < length (nodes self) \<and> nodes self ! i = Leaf node \<and> leaf_order self s node = Inr ord"
proof (induction fuel arbitrary: stack)
  case 0
  then show ?case by simp
next
  case (Suc fuel)
  show ?case
  proof (cases "stack = [] \<or> length (nodes self) \<le> last stack")
    case True
    with Suc.prems show ?thesis by (auto simp: Let_def split: if_splits)
  next
    case False
    then have ne: "stack \<noteq> []" and inr: "last stack < length (nodes self)" by auto
    show ?thesis
    proof (cases "nodes self ! last stack")
      case Uninitialized
      with Suc.prems ne inr have "ord \<in> set (yielded (orders_loop fuel self s (butlast stack)))"
        by (simp add: Let_def)
      then show ?thesis by (rule Suc.IH)
    next
      case (Inner c0 c1)
      with Suc.prems ne inr have
        "ord \<in> set (yielded (orders_loop fuel self s
           (if s = BUY then c0 # c1 # butlast stack else c1 # c0 # butlast stack)))"
        by (simp add: Let_def)
      then show ?thesis by (rule Suc.IH)
    next
      case (Leaf node)
      show ?thesis
      proof (cases "leaf_order self s node")
        case (Inl e)
        with Suc.prems ne inr Leaf show ?thesis by (simp add: Let_def)
      next
        case (Inr o1)
        with Suc.prems ne inr Leaf have
          "ord = o1 \<or> ord \<in> set (yielded (orders_loop fuel self s (butlast stack)))"
          by (simp add: Let_def)
        then show ?thesis
        proof
          assume "ord = o1"
          with Inr Leaf inr show ?thesis by blast
        next
          assume "ord \<in> set (yielded (orders_loop fuel self s (butlast stack)))"
          then show ?thesis by (rule Suc.IH)
        qed
      qed
    next
      case (Free n)
      with Suc.prems ne inr have "ord \<in> set (yielded (orders_loop fuel self s (butlast stack)))"
        by (simp add: Let_def)
      then show ?thesis by (rule Suc.IH)
    qed
  qed
qed

lemma loop_more_fuel:
  "outcome (orders_loop fuel self s stack) \<noteq> Running \<Longrightarrow>
   orders_loop (fuel + k) self s stack = orders_loop fuel self s stack"
proof (induction fuel arbitrary: stack)
  case 0
  then show ?case by (cases k) (simp_all split: if_splits)
next
  case (Suc fuel)
  then show ?case
    by (simp add: Let_def split: book_node.splits sum.splits if_splits)
qed


lemma nodes_count_pos: "0 < nodes_count t"
  by (cases t) simp_all

lemma leaf_order_Inl:
  "leaf_order self s node = Inl e \<Longrightarrow>
   base_lot_size (perp_market_details self) = 0 \<and> (e = DivisionByZero \<or> e = InvalidOperation)"
proof -
  assume a: "leaf_order self s node = Inl e"
  have q: "\<exists>d. dec_div x (dec_pow10 n) = Inr d" for x n
    using dec_div_Inr [OF dec_pow10_nonzero] by blast
  have "dec_div (dec_of_int (quote_lot_size (perp_market_details self)))
          (dec_of_int (base_lot_size (perp_market_details self))) = Inl e"
    using a q [of "dec_mul (dec_of_int (leaf_quantity node))
                     (dec_of_int (base_lot_size (perp_market_details self)))"
                  "decimals (base_token (perp_market_details self))"]
    by (auto simp: leaf_order_def Let_def split: sum.splits)
  then show ?thesis
    by (auto simp: dec_div_def dec_of_int_def Let_def case_prod_beta split: if_splits)
qed

lemma loop_terminates:
  "list_all2 (unfolds (nodes self)) stack ts \<Longrightarrow> sum_list (map nodes_count ts) \<le> fuel \<Longrightarrow>
   outcome (orders_loop fuel self s stack) = Exhausted
   \<or> (base_lot_size (perp_market_details self) = 0
       \<and> (outcome (orders_loop fuel self s stack) = Raised DivisionByZero
           \<or> outcome (orders_loop fuel self s stack) = Raised InvalidOperation))"
proof (induction fuel arbitrary: stack ts)
  case 0
  have "ts = []"
  proof (cases ts)
    case (Cons t ts')
    with 0 nodes_count_pos [of t] show ?thesis by simp
  qed simp
  with 0 show ?case by simp
next
  case (Suc fuel)
  show ?case
  proof (cases stack rule: rev_cases)
    case Nil
    then show ?thesis by simp
  next
    case (snoc rest i)
    with Suc.prems(1) obtain trest t where
      ts: "ts = trest @ [t]" and rest: "list_all2 (unfolds (nodes self)) rest trest"
      and t: "unfolds (nodes self) i t"
      by (auto simp: list_all2_append1 list_all2_Cons1)
    from t have inr: "i < length (nodes self)" by (cases t) simp_all
    show ?thesis
    proof (cases "nodes self ! i")
      case (Inner c0 c1)
      with t obtain l r where tf: "t = Fork l r"
        and l: "unfolds (nodes self) c0 l" and r: "unfolds (nodes self) c1 r"
        by (cases t) simp_all
      have sz: "sum_list (map nodes_count (l # r # trest)) \<le> fuel"
        "sum_list (map nodes_count (r # l # trest)) \<le> fuel"
        using Suc.prems(2) by (simp_all add: ts tf)
      have "outcome (orders_loop fuel self s (c0 # c1 # rest)) = Exhausted
            \<or> (base_lot_size (perp_market_details self) = 0
               \<and> (outcome (orders_loop fuel self s (c0 # c1 # rest)) = Raised DivisionByZero
                  \<or> outcome (orders_loop fuel self s (c0 # c1 # rest)) = Raised InvalidOperation))"
        using l r rest sz(1) by (intro Suc.IH [of _ "l # r # trest"]) simp_all
      moreover have "outcome (orders_loop fuel self s (c1 # c0 # rest)) = Exhausted
            \<or> (base_lot_size (perp_market_details self) = 0
               \<and> (outcome (orders_loop fuel self s (c1 # c0 # rest)) = Raised DivisionByZero
                  \<or> outcome (orders_loop fuel self s (c1 # c0 # rest)) = Raised InvalidOperation))"
        using l r rest sz(2) by (intro Suc.IH [of _ "r # l # trest"]) simp_all
      ultimately show ?thesis
        using inr Inner by (cases "s = BUY") (simp_all add: snoc Let_def)
    next
      case (Leaf node)
      have sz: "sum_list (map nodes_count trest) \<le> fuel"
        using Suc.prems(2) nodes_count_pos [of t] by (simp add: ts)
      note ih = Suc.IH [OF rest sz]
      show ?thesis
      proof (cases "leaf_order self s node")
        case (Inl e)
        with leaf_order_Inl [OF Inl] inr Leaf show ?thesis
          by (auto simp: snoc Let_def)
      next
        case (Inr ord)
        with ih inr Leaf show ?thesis by (simp add: snoc Let_def)
      qed
    next
      case Uninitialized
      have sz: "sum_list (map nodes_count trest) \<le> fuel"
        using Suc.prems(2) nodes_count_pos [of t] by (simp add: ts)
      with Suc.IH [OF rest sz] inr Uninitialized show ?thesis by (simp add: snoc Let_def)
    next
      case (Free n)
      have sz: "sum_list (map nodes_count trest) \<le> fuel"
        using Suc.prems(2) nodes_count_pos [of t] by (simp add: ts)
      with Suc.IH [OF rest sz] inr Free show ?thesis by (simp add: snoc Let_def)
    qed
  qed
qed


section \<open>The runs of the examples\<close>

lemma ndigits_million: "ndigits 1000000 = 7"
  using ndigits_eqI [of 6 1000000] by simp

lemma dec_one_by_one: "dec_div (Decimal 1 0) (Decimal 1 0) = Inr (Decimal 1 0)"
  using dec_div_exact [of 1 1 0 1 0 0] by (simp add: ndigits_digit)

lemma dec_one_by_million: "dec_div (Decimal 1 0) (Decimal 1000000 0) = Inr (Decimal 1 (- 6))"
  using dec_div_exact [of 1 1000000 6 1 0 0] by (simp add: ndigits_digit ndigits_million)

lemma dec_pow10_0: "dec_pow10 0 = Decimal 1 0"
  by (simp add: dec_pow10_def prec_def)

lemma dec_pow10_6: "dec_pow10 6 = Decimal 1000000 0"
  by (simp add: dec_pow10_def prec_def)

lemma example_leaf_order:
  assumes p: "nat \<bar>p\<bar> < 10 ^ 28" and m: "perp_market_details self = example_market"
  shows "leaf_order self s
           \<lparr>key_price = p, key_order_id = p, leaf_quantity = 1, leaf_owner = ''owner'',
            client_order_id = 0\<rparr>
         = Inr (example_order s p)"
proof -
  have pr: "dec_mul (dec_mul (Decimal p 0) (Decimal 1 0)) (Decimal 1 0) = Decimal p 0"
    using p by (simp add: dec_mul_small)
  have qm: "dec_mul (Decimal 1 0) (Decimal 1 0) = Decimal 1 0"
    by (simp add: dec_mul_small)
  show ?thesis
    by (simp add: leaf_order_def m example_market_def dec_of_int_def dec_one_by_one
        dec_pow10_0 dec_pow10_6 pr qm dec_one_by_million example_order_def)
qed

lemmas orders_loop_numeral =
  orders_loop.simps(2) [of "pred_numeral k", folded numeral_eq_Suc] for k

lemma example_side_fields:
  "nodes (example_side t ns) = ns"
  "perp_market_details (example_side t ns) = example_market"
  "leaf_count (example_side t ns) = 3"
  "root_node (example_side t ns) = 0"
  "data_type (meta_data (example_side t ns)) = t"
  by (simp_all add: example_side_def)

lemma example_bids_run:
  "orders 5 example_bids =
     \<lparr>yielded = [example_order BUY 1, example_order BUY 3, example_order BUY 2],
      visited = [0, 2, 1, 4, 3], outcome = Exhausted, object = example_bids\<rparr>"
  by (simp add: orders_def example_bids_def example_side_fields example_leaf_def
      orders_loop_numeral example_leaf_order Let_def)

lemma example_asks_run:
  "orders 5 example_asks =
     \<lparr>yielded = [example_order SELL 3, example_order SELL 1, example_order SELL 2],
      visited = [0, 1, 4, 2, 3], outcome = Exhausted, object = example_asks\<rparr>"
  by (simp add: orders_def example_asks_def example_side_fields example_leaf_def
      orders_loop_numeral example_leaf_order Let_def)


lemma example_shapes:
  "unfolds (nodes example_bids) (root_node example_bids) example_bids_shape"
  "key_ordered (nodes example_bids) (root_node example_bids) example_bids_shape"
  "unfolds (nodes example_asks) (root_node example_asks) example_asks_shape"
  "key_ordered (nodes example_asks) (root_node example_asks) example_asks_shape"
  by (simp_all add: example_bids_def example_asks_def example_side_fields
      example_bids_shape_def example_asks_shape_def example_leaf_def key_less_def)

lemma example_order_price: "dec_val (price (example_order s p)) = of_int p"
  by (simp add: example_order_def dec_val_def)

lemma ndigits_values:
  "ndigits 100 = 3" "ndigits 20000 = 5"
  "ndigits 33333333333333333333333333333 = 29"
  "ndigits 3333333333333333333333333333 = 28"
  using ndigits_eqI [of 2 100] ndigits_eqI [of 4 20000]
    ndigits_eqI [of 28 33333333333333333333333333333]
    ndigits_eqI [of 27 3333333333333333333333333333]
  by simp_all

lemma dec_one_by_hundred: "dec_div (Decimal 1 0) (Decimal 100 0) = Inr (Decimal 1 (- 2))"
  using dec_div_exact [of 1 100 2 1 0 0] by (simp add: ndigits_digit ndigits_values)

lemma dec_quantity_worked:
  "dec_div (Decimal 20000 0) (Decimal 1000000 0) = Inr (Decimal 2 (- 2))"
  using dec_div_exact [of 20000 1000000 2 2 0 0] by (simp add: ndigits_values ndigits_million)

lemma dec_three_by_million: "dec_div (Decimal 3 0) (Decimal 1000000 0) = Inr (Decimal 3 (- 6))"
  using dec_div_exact [of 3 1000000 6 3 0 0] by (simp add: ndigits_digit ndigits_million)

lemma dec_one_by_three:
  "dec_div (Decimal 1 0) (Decimal 3 0) = Inr (Decimal 3333333333333333333333333333 (- 28))"
proof -
  have r: "round_half_even 33333333333333333333333333333 (Suc 0) = 3333333333333333333333333333"
    by (simp add: round_half_even_def)
  have f: "dec_fix (Decimal 33333333333333333333333333333 (- 29))
           = Decimal 3333333333333333333333333333 (- 28)"
    by (simp add: dec_fix_def prec_def ndigits_values Let_def r)
  show ?thesis
    by (simp add: dec_div_def prec_def ndigits_digit Let_def f)
qed

lemma worked_leaf_order: "leaf_order worked_side BUY worked_leaf = Inr worked_order"
proof -
  have pr: "dec_mul (dec_mul (Decimal 500 0) (Decimal 1 (- 2))) (Decimal 1 0) = Decimal 500 (- 2)"
    by (simp add: dec_mul_small)
  have qm: "dec_mul (Decimal 200 0) (Decimal 100 0) = Decimal 20000 0"
    by (simp add: dec_mul_small)
  show ?thesis
    by (simp add: leaf_order_def worked_side_def worked_market_def worked_leaf_def
        dec_of_int_def dec_one_by_hundred dec_pow10_0 dec_pow10_6 pr qm dec_quantity_worked
        worked_order_def)
qed

lemma worked_run:
  "orders 1 worked_side =
     \<lparr>yielded = [worked_order], visited = [0], outcome = Exhausted, object = worked_side\<rparr>"
proof -
  have n: "nodes worked_side = [Leaf worked_leaf]" "leaf_count worked_side = 1"
    "root_node worked_side = 0" "data_type (meta_data worked_side) = Bids"
    by (simp_all add: worked_side_def)
  show ?thesis
    by (simp add: orders_def n worked_leaf_order)
qed

lemma thirds_leaf_order: "leaf_order thirds_side BUY thirds_leaf = Inr thirds_order"
proof -
  have pr: "dec_mul (dec_mul (Decimal 3 0) (Decimal 3333333333333333333333333333 (- 28)))
              (Decimal 1 0) = Decimal 9999999999999999999999999999 (- 28)"
    by (simp add: dec_mul_small)
  have qm: "dec_mul (Decimal 1 0) (Decimal 3 0) = Decimal 3 0"
    by (simp add: dec_mul_small)
  show ?thesis
    by (simp add: leaf_order_def thirds_side_def thirds_market_def thirds_leaf_def
        dec_of_int_def dec_one_by_three dec_pow10_0 dec_pow10_6 pr qm dec_three_by_million
        thirds_order_def)
qed

lemma thirds_run:
  "orders 1 thirds_side =
     \<lparr>yielded = [thirds_order], visited = [0], outcome = Exhausted, object = thirds_side\<rparr>"
proof -
  have n: "nodes thirds_side = [Leaf thirds_leaf]" "leaf_count thirds_side = 1"
    "root_node thirds_side = 0" "data_type (meta_data thirds_side) = Bids"
    by (simp_all add: thirds_side_def)
  show ?thesis
    by (simp add: orders_def n thirds_leaf_order)
qed


lemma worked_values:
  assumes r: "dec_div (dec_of_int 1) (dec_of_int 100) = Inr ratio"
    and q: "dec_div (dec_mul (dec_of_int 200) (dec_of_int 100)) (dec_pow10 6) = Inr qty"
  shows "dec_val (dec_mul (dec_mul (dec_of_int 500) ratio) (dec_pow10 (6 - 6))) = 5"
    and "dec_val qty = 2 / 100"
proof -
  have ratio: "ratio = Decimal 1 (- 2)"
    using r by (simp add: dec_of_int_def dec_one_by_hundred)
  have pr: "dec_mul (dec_mul (Decimal 500 0) (Decimal 1 (- 2))) (Decimal 1 0) = Decimal 500 (- 2)"
    by (simp add: dec_mul_small)
  show "dec_val (dec_mul (dec_mul (dec_of_int 500) ratio) (dec_pow10 (6 - 6))) = 5"
    by (simp add: ratio dec_of_int_def dec_pow10_0 pr dec_val_def)
  have qm: "dec_mul (Decimal 200 0) (Decimal 100 0) = Decimal 20000 0"
    by (simp add: dec_mul_small)
  have "qty = Decimal 2 (- 2)"
    using q by (simp add: dec_of_int_def qm dec_pow10_6 dec_quantity_worked)
  then show "dec_val qty = 2 / 100"
    by (simp add: dec_val_def)
qed


section \<open>Facts about the decoder and the example ledger\<close>












lemma example_load:
  "AccountInfo_load example_context ''asks'' = None"
  "AccountInfo_load example_context ''bids'' = Some example_account"
  by (simp_all add: AccountInfo_load_def example_context_def)

lemma example_addresses:
  "bids (underlying_perp_market example_perp_market) = ''bids''"
  "asks (underlying_perp_market example_perp_market) = ''asks''"
  "underlying_perp_market example_perp_market = example_market"
  "bids example_market = ''bids''"
  "asks example_market = ''asks''"
  by (simp_all add: example_perp_market_def example_market_def)


section \<open>Facts about the statements\<close>

lemma exec_keeps_object:
  "assigns_no_attribute c \<Longrightarrow> self_obj (state_of (exec fuel c s)) = self_obj s"
proof (induction fuel c s rule: exec.induct)
  case (6 fuel c1 c2 s)
  obtain ys st s' where r1: "exec fuel c1 s = (ys, st, s')"
    by (cases "exec fuel c1 s") auto
  obtain zs st2 s'' where r2: "exec fuel c2 s' = (zs, st2, s'')"
    by (cases "exec fuel c2 s'") auto
  from 6 r1 have a: "self_obj s' = self_obj s"
    by (simp add: state_of_def)
  show ?case
  proof (cases "st = Normal")
    case True
    with 6 r1 r2 a show ?thesis by (simp add: state_of_def)
  next
    case False
    with r1 a show ?thesis by (cases st) (simp_all add: state_of_def)
  qed
next
  case (9 fuel b c s)
  show ?case
  proof (cases "b s")
    case False
    then show ?thesis by (simp add: state_of_def)
  next
    case True
    obtain ys st s' where r1: "exec fuel c s = (ys, st, s')"
      by (cases "exec fuel c s") auto
    obtain zs st2 s'' where r2: "exec fuel (While b c) s' = (zs, st2, s'')"
      by (cases "exec fuel (While b c) s'") auto
    from 9 True r1 have a: "self_obj s' = self_obj s"
      by (simp add: state_of_def)
    show ?thesis
    proof (cases "st = Normal")
      case n: True
      with 9 True r1 r2 a show ?thesis by (simp add: state_of_def)
    next
      case False
      with True r1 a show ?thesis by (cases st) (simp_all add: state_of_def)
    qed
  qed
qed (auto simp: state_of_def split: sum.splits)

lemma orders_body_assigns_no_attribute: "assigns_no_attribute orders_body"
  by (simp add: orders_body_def loop_body_def)

lemma exec_loop_body:
  assumes "stack_var (locals s) \<noteq> []"
  shows "exec fuel loop_body s =
     (let index = last (stack_var (locals s));
          rest = butlast (stack_var (locals s));
          l1 = (locals s)\<lparr>index_var := index, stack_var := rest\<rparr>
      in if length (nodes (self_obj s)) \<le> index then ([], Raising IndexError, s\<lparr>locals := l1\<rparr>)
         else
           let l2 = l1\<lparr>node_var := nodes (self_obj s) ! index\<rparr>
           in case nodes (self_obj s) ! index of
                Leaf node \<Rightarrow>
                  (case leaf_order (self_obj s) (order_side_var (locals s)) node of
                     Inl e \<Rightarrow> ([], Raising e, s\<lparr>locals := l2\<rparr>)
                   | Inr ord \<Rightarrow> ([ord], Normal, s\<lparr>locals := l2\<rparr>))
              | Inner c0 c1 \<Rightarrow>
                  ([], Normal,
                   s\<lparr>locals := l2\<lparr>stack_var :=
                        (if order_side_var (locals s) = BUY then c0 # c1 # rest
                         else c1 # c0 # rest)\<rparr>\<rparr>)
              | _ \<Rightarrow> ([], Normal, s\<lparr>locals := l2\<rparr>))"
  using assms by (simp add: loop_body_def Let_def split: book_node.splits sum.splits)

lemma exec_loop:
  "stack_var (locals s) = stack \<Longrightarrow> order_side_var (locals s) = os \<Longrightarrow>
   yields_of (exec fuel (While (\<lambda>s. 0 < length (stack_var (locals s))) loop_body) s)
     = yielded (orders_loop fuel (self_obj s) os stack)
   \<and> outcome_of (status_of (exec fuel (While (\<lambda>s. 0 < length (stack_var (locals s))) loop_body) s))
     = outcome (orders_loop fuel (self_obj s) os stack)"
proof (induction fuel arbitrary: s stack)
  case 0
  then show ?case by (auto simp: yields_of_def status_of_def)
next
  case (Suc fuel)
  show ?case
  proof (cases "stack = []")
    case True
    with Suc.prems show ?thesis by (simp add: yields_of_def status_of_def)
  next
    case ne: False
    define l1 where "l1 = (locals s)\<lparr>index_var := last stack, stack_var := butlast stack\<rparr>"
    show ?thesis
    proof (cases "length (nodes (self_obj s)) \<le> last stack")
      case True
      with Suc.prems ne show ?thesis
        by (simp add: exec_loop_body yields_of_def status_of_def Let_def)
    next
      case inr: False
      define l2 where "l2 = l1\<lparr>node_var := nodes (self_obj s) ! last stack\<rparr>"
      show ?thesis
      proof (cases "nodes (self_obj s) ! last stack")
        case Uninitialized
        have st: "stack_var (locals (s\<lparr>locals := l2\<rparr>)) = butlast stack"
          "order_side_var (locals (s\<lparr>locals := l2\<rparr>)) = os"
          using Suc.prems by (simp_all add: l2_def l1_def)
        from Suc.IH [OF st] Suc.prems ne inr Uninitialized show ?thesis
          by (auto simp: exec_loop_body yields_of_def status_of_def Let_def l1_def l2_def
              split: prod.splits status.splits)
      next
        case (Free n)
        have st: "stack_var (locals (s\<lparr>locals := l2\<rparr>)) = butlast stack"
          "order_side_var (locals (s\<lparr>locals := l2\<rparr>)) = os"
          using Suc.prems by (simp_all add: l2_def l1_def)
        from Suc.IH [OF st] Suc.prems ne inr Free show ?thesis
          by (auto simp: exec_loop_body yields_of_def status_of_def Let_def l1_def l2_def
              split: prod.splits status.splits)
      next
        case (Leaf node)
        have st: "stack_var (locals (s\<lparr>locals := l2\<rparr>)) = butlast stack"
          "order_side_var (locals (s\<lparr>locals := l2\<rparr>)) = os"
          using Suc.prems by (simp_all add: l2_def l1_def)
        show ?thesis
        proof (cases "leaf_order (self_obj s) os node")
          case (Inl e)
          with Suc.prems ne inr Leaf show ?thesis
            by (simp add: exec_loop_body yields_of_def status_of_def Let_def)
        next
          case (Inr ord)
          from Suc.IH [OF st] Suc.prems ne inr Leaf Inr show ?thesis
            by (auto simp: exec_loop_body yields_of_def status_of_def Let_def l1_def l2_def
                split: prod.splits status.splits)
        qed
      next
        case (Inner c0 c1)
        define l3 where
          "l3 = l2\<lparr>stack_var := (if os = BUY then c0 # c1 # butlast stack
                                   else c1 # c0 # butlast stack)\<rparr>"
        have st: "stack_var (locals (s\<lparr>locals := l3\<rparr>))
                    = (if os = BUY then c0 # c1 # butlast stack else c1 # c0 # butlast stack)"
          "order_side_var (locals (s\<lparr>locals := l3\<rparr>)) = os"
          using Suc.prems by (simp_all add: l3_def l2_def l1_def)
        from Suc.IH [OF st] Suc.prems ne inr Inner show ?thesis
          by (cases "os = BUY")
            (auto simp: exec_loop_body yields_of_def status_of_def Let_def l1_def l2_def l3_def
              split: prod.splits status.splits)
      qed
    qed
  qed
qed

lemma invoke_orders:
  "yields_of (invoke fuel unbound self) = yielded (orders fuel self)
   \<and> outcome_of (status_of (invoke fuel unbound self)) = outcome (orders fuel self)"
proof (cases "leaf_count self = 0")
  case True
  then show ?thesis
    by (simp add: invoke_def orders_body_def orders_def yields_of_def status_of_def)
next
  case False
  define os where "os = (if data_type (meta_data self) = Bids then BUY else SELL)"
  define s where
    "s = \<lparr>self_obj = self,
          locals = unbound\<lparr>order_side_var := os, stack_var := [root_node self]\<rparr>\<rparr>"
  have st: "stack_var (locals s) = [root_node self]" "order_side_var (locals s) = os"
    by (simp_all add: s_def)
  have e: "invoke fuel unbound self
           = exec fuel (While (\<lambda>s. 0 < length (stack_var (locals s))) loop_body) s"
    using False
    by (cases "exec fuel (While (\<lambda>s. 0 < length (stack_var (locals s))) loop_body) s")
      (auto simp: invoke_def orders_body_def s_def os_def)
  from exec_loop [OF st, of fuel] False show ?thesis
    by (simp add: e orders_def s_def os_def)
qed


section \<open>An empty side\<close>

text \<open>
  C4. For every order book side with \<open>leaf_count = 0\<close>, \<open>orders\<close> yields the empty
  sequence and is exhausted at once, whatever \<open>root_node\<close> and the node array hold
  and however many iterations are allowed.
\<close>

theorem orders_empty_leaf_count:
  "leaf_count self = 0 \<Longrightarrow> yielded (orders fuel self) = [] \<and> outcome (orders fuel self) = Exhausted"
  by (simp add: orders_def)

theorem orders_empty_leaf_count_witness:
  "leaf_count (example_bids\<lparr>leaf_count := 0\<rparr>) = 0
   \<and> yielded (orders 7 (example_bids\<lparr>leaf_count := 0\<rparr>)) = []
   \<and> outcome (orders 7 (example_bids\<lparr>leaf_count := 0\<rparr>)) = Exhausted"
  using orders_empty_leaf_count [of "example_bids\<lparr>leaf_count := 0\<rparr>" 7] by simp


section \<open>Termination on a tree\<close>

text \<open>
  C8. For every order book side whose node array unfolds from \<open>root_node\<close> to a finite
  shape (every index met is in range and no inner node is met again below itself),
  \<open>orders\<close> terminates within as many iterations as the shape has nodes: the run is no
  longer running, more iterations change nothing, and at most that many orders are
  yielded. Unless the base lot size is zero, in which case the decimal division raises
  at the first leaf, the run ends exhausted.
\<close>

theorem orders_terminates:
  assumes "unfolds (nodes self) (root_node self) t"
  shows "outcome (orders (nodes_count t) self) \<noteq> Running
         \<and> (\<forall>k. orders (nodes_count t + k) self = orders (nodes_count t) self)
         \<and> length (yielded (orders (nodes_count t) self)) \<le> nodes_count t
         \<and> (base_lot_size (perp_market_details self) \<noteq> 0
              \<longrightarrow> outcome (orders (nodes_count t) self) = Exhausted)"
proof (cases "leaf_count self = 0")
  case True
  then show ?thesis by (simp add: orders_def)
next
  case False
  define s where "s = (if data_type (meta_data self) = Bids then BUY else SELL)"
  have eq: "orders fuel self = orders_loop fuel self s [root_node self]" for fuel
    using False by (simp add: orders_def s_def)
  have "list_all2 (unfolds (nodes self)) [root_node self] [t]"
    using assms by simp
  then have out: "outcome (orders_loop (nodes_count t) self s [root_node self]) = Exhausted
     \<or> (base_lot_size (perp_market_details self) = 0
        \<and> (outcome (orders_loop (nodes_count t) self s [root_node self]) = Raised DivisionByZero
           \<or> outcome (orders_loop (nodes_count t) self s [root_node self]) = Raised InvalidOperation))"
    by (rule loop_terminates) simp
  then have nr: "outcome (orders_loop (nodes_count t) self s [root_node self]) \<noteq> Running"
    by auto
  show ?thesis
    using out nr loop_more_fuel [OF nr] loop_yield_bound [of "nodes_count t" self s "[root_node self]"]
    by (auto simp: eq)
qed

theorem orders_terminates_witness:
  "unfolds (nodes example_bids) (root_node example_bids) example_bids_shape
   \<and> outcome (orders 5 example_bids) = Exhausted
   \<and> orders (5 + 100) example_bids = orders 5 example_bids
   \<and> length (yielded (orders 5 example_bids)) = 3"
proof -
  have u: "unfolds (nodes example_bids) (root_node example_bids) example_bids_shape"
    by (simp add: example_bids_def example_side_fields example_bids_shape_def example_leaf_def)
  have n: "nodes_count example_bids_shape = 5"
    by (simp add: example_bids_shape_def)
  have "orders (5 + 100) example_bids = orders 5 example_bids"
    using orders_terminates [OF u] unfolding n by blast
  with u show ?thesis by (simp add: example_bids_run)
qed


section \<open>A pure function of the decoded side\<close>

text \<open>
  C9. The body of \<open>orders\<close> holds no assignment to an attribute of the object, so an
  invocation, run for any number of iterations from any frame, leaves every field of the
  object as it was. A second invocation, on the object as the first one left it and in a
  frame of its own, yields the same orders in the same order and stands the same way as
  the first: the orders of the side, a function of the object alone.
\<close>

theorem orders_stateless:
  "assigns_no_attribute orders_body
   \<and> self_obj (state_of (invoke fuel unbound self)) = self
   \<and> yields_of (invoke fuel' unbound' (self_obj (state_of (invoke fuel unbound self))))
       = yields_of (invoke fuel' unbound self)
   \<and> outcome_of (status_of (invoke fuel' unbound' (self_obj (state_of (invoke fuel unbound self)))))
       = outcome_of (status_of (invoke fuel' unbound self))
   \<and> yields_of (invoke fuel unbound self) = yielded (orders fuel self)"
proof -
  have "self_obj (state_of (invoke fuel unbound self)) = self"
    using exec_keeps_object [OF orders_body_assigns_no_attribute]
    by (simp add: invoke_def)
  then show ?thesis
    by (simp add: orders_body_assigns_no_attribute invoke_orders)
qed


section \<open>The side and the type of the orders\<close>

text \<open>
  C10. Every order yielded by \<open>orders\<close> has the order type \<open>UNKNOWN\<close> and the side
  \<open>BUY\<close> when the data type of the metadata is \<open>Bids\<close>, \<open>SELL\<close> otherwise, whatever the
  leaf holds.
\<close>

theorem orders_side_and_type:
  "\<forall>ord \<in> set (yielded (orders fuel self)).
     order_type ord = UNKNOWN
     \<and> side ord = (if data_type (meta_data self) = Bids then BUY else SELL)"
proof
  fix ord
  assume a: "ord \<in> set (yielded (orders fuel self))"
  define s where "s = (if data_type (meta_data self) = Bids then BUY else SELL)"
  from a have "ord \<in> set (yielded (orders_loop fuel self s [root_node self]))"
    by (simp add: orders_def s_def split: if_splits)
  then obtain node where "leaf_order self s node = Inr ord"
    using loop_yields_leaves by blast
  then show "order_type ord = UNKNOWN
     \<and> side ord = (if data_type (meta_data self) = Bids then BUY else SELL)"
    using leaf_order_fields [of self s node ord] by (simp add: s_def)
qed

theorem orders_side_and_type_witness:
  "example_order BUY 1 \<in> set (yielded (orders 5 example_bids))
   \<and> order_type (example_order BUY 1) = UNKNOWN \<and> side (example_order BUY 1) = BUY
   \<and> example_order SELL 3 \<in> set (yielded (orders 5 example_asks))
   \<and> order_type (example_order SELL 3) = UNKNOWN \<and> side (example_order SELL 3) = SELL"
proof -
  have b: "data_type (meta_data example_bids) = Bids"
    by (simp add: example_bids_def example_side_fields)
  have a: "data_type (meta_data example_asks) = Asks"
    by (simp add: example_asks_def example_side_fields)
  have mb: "example_order BUY 1 \<in> set (yielded (orders 5 example_bids))"
    unfolding example_bids_run by simp
  have ma: "example_order SELL 3 \<in> set (yielded (orders 5 example_asks))"
    unfolding example_asks_run by simp
  show ?thesis
    using orders_side_and_type [of 5 example_bids, THEN bspec, OF mb]
      orders_side_and_type [of 5 example_asks, THEN bspec, OF ma] mb ma
    by (simp add: a b)
qed

section \<open>The order of the traversal\<close>

text \<open>
  C1. The claim: for every well-formed tree in which \<open>children[0]\<close> of every inner node
  roots the lesser-keyed subtree, the prices yielded are non-increasing for bids and
  non-decreasing for asks. The loop pops from the end of \<open>stack\<close> and puts the children
  of an inner node at its front, so the nodes leave in the order they entered, level by
  level: a leaf is yielded before every leaf that lies deeper in the tree. On the bids
  of three orders, a well-formed and key-ordered tree, the run is exhausted after
  yielding the prices 1, 3, 2, which are not non-increasing; on the asks of the same
  three orders it yields 3, 1, 2, which are not non-decreasing.
\<close>

theorem orders_prices_not_monotone:
  "unfolds (nodes example_bids) (root_node example_bids) example_bids_shape
   \<and> key_ordered (nodes example_bids) (root_node example_bids) example_bids_shape
   \<and> data_type (meta_data example_bids) = Bids
   \<and> map (dec_val \<circ> price) (yielded (orders 5 example_bids)) = [1, 3, 2]
   \<and> \<not> non_increasing (map (dec_val \<circ> price) (yielded (orders 5 example_bids)))
   \<and> outcome (orders 5 example_bids) = Exhausted
   \<and> unfolds (nodes example_asks) (root_node example_asks) example_asks_shape
   \<and> key_ordered (nodes example_asks) (root_node example_asks) example_asks_shape
   \<and> data_type (meta_data example_asks) = Asks
   \<and> map (dec_val \<circ> price) (yielded (orders 5 example_asks)) = [3, 1, 2]
   \<and> \<not> non_decreasing (map (dec_val \<circ> price) (yielded (orders 5 example_asks)))
   \<and> outcome (orders 5 example_asks) = Exhausted"
proof -
  have b: "data_type (meta_data example_bids) = Bids"
    by (simp add: example_bids_def example_side_fields)
  have a: "data_type (meta_data example_asks) = Asks"
    by (simp add: example_asks_def example_side_fields)
  show ?thesis
    by (simp add: example_shapes a b example_bids_run example_asks_run example_order_price
        non_increasing_def non_decreasing_def)
qed


text \<open>
  C2. The claim: at every inner node the whole subtree of one child is popped before the
  whole subtree of the other, \<open>children[1]\<close> first for bids and \<open>children[0]\<close> first for
  asks. On the bids of three orders the root is \<open>Inner 1 2\<close> and node 2 is
  \<open>Inner 3 4\<close>: the pops are 0, 2, 1, 4, 3, so node 1, the subtree of \<open>children[0]\<close>, is
  popped before the nodes 4 and 3 of the subtree of \<open>children[1]\<close>. On the asks the root
  is \<open>Inner 1 4\<close> and node 1 is \<open>Inner 2 3\<close>: the pops are 0, 1, 4, 2, 3, so node 4,
  the subtree of \<open>children[1]\<close>, is popped before the nodes 2 and 3 of the subtree of
  \<open>children[0]\<close>.
\<close>

theorem orders_visits_breadth_first:
  "nodes example_bids ! 0 = Inner 1 2
   \<and> nodes example_bids ! 2 = Inner 3 4
   \<and> visited (orders 5 example_bids) = [0, 2, 1, 4, 3]
   \<and> nodes example_asks ! 0 = Inner 1 4
   \<and> nodes example_asks ! 1 = Inner 2 3
   \<and> visited (orders 5 example_asks) = [0, 1, 4, 2, 3]"
  by (simp add: example_bids_run example_asks_run)
    (simp add: example_bids_def example_asks_def example_side_fields)


section \<open>The scaling of prices and quantities\<close>

text \<open>
  C5, as stated, fails: with a base lot of 3 and a quote lot of 1 the quotient
  \<open>quote_lot_size / base_lot_size\<close> is rounded to 28 digits, and the native price 3
  gives the price 0.9999999999999999999999999999, not the exact value 1 of the formula.
\<close>

theorem orders_price_rounded:
  "nodes thirds_side = [Leaf thirds_leaf]
   \<and> yielded (orders 1 thirds_side) \<noteq> []
   \<and> dec_val (price (hd (yielded (orders 1 thirds_side))))
       = 9999999999999999999999999999 / 10 ^ 28
   \<and> exact_price (perp_market_details thirds_side) (key_price thirds_leaf) = 1
   \<and> dec_val (price (hd (yielded (orders 1 thirds_side))))
       \<noteq> exact_price (perp_market_details thirds_side) (key_price thirds_leaf)"
proof -
  have e: "exact_price (perp_market_details thirds_side) (key_price thirds_leaf) = 1"
    by (simp add: exact_price_def thirds_side_def thirds_market_def thirds_leaf_def rat_pow10_def)
  have v: "dec_val (price thirds_order) = 9999999999999999999999999999 / 10 ^ 28"
    by (simp add: thirds_order_def dec_val_def)
  have n: "nodes thirds_side = [Leaf thirds_leaf]"
    by (simp add: thirds_side_def)
  show ?thesis
    unfolding thirds_run by (simp add: e v n)
qed



text \<open>
  C5, amended. Every order yielded by \<open>orders\<close> comes from a leaf of the node array, and
  its price is \<open>(native_price * (quote_lot_size / base_lot_size)) * 10 ^ (base_decimals -
  quote_decimals)\<close> and its quantity \<open>(native_quantity * base_lot_size) / 10 ^
  base_decimals\<close>, where each multiplication and division is the operation of Python's
  \<open>Decimal\<close> at the default context, its result rounded to 28 significant digits. With six
  decimals on both sides, a base lot of 100 and a quote lot of 1, the native price 500
  gives the price 5 and the native quantity 200 gives the quantity 0.02, exactly.
\<close>

theorem orders_scaling:
  assumes "ord \<in> set (yielded (orders fuel self))"
  shows "\<exists>node ratio.
           Leaf node \<in> set (nodes self)
           \<and> dec_div (dec_of_int (quote_lot_size (perp_market_details self)))
                (dec_of_int (base_lot_size (perp_market_details self))) = Inr ratio
           \<and> price ord =
               dec_mul (dec_mul (dec_of_int (key_price node)) ratio)
                 (dec_pow10 (decimals (base_token (perp_market_details self))
                              - decimals (quote_token (perp_market_details self))))
           \<and> dec_div (dec_mul (dec_of_int (leaf_quantity node))
                         (dec_of_int (base_lot_size (perp_market_details self))))
                (dec_pow10 (decimals (base_token (perp_market_details self))))
               = Inr (quantity ord)
           \<and> (decimals (base_token (perp_market_details self)) = 6
                \<and> decimals (quote_token (perp_market_details self)) = 6
                \<and> base_lot_size (perp_market_details self) = 100
                \<and> quote_lot_size (perp_market_details self) = 1
                \<and> key_price node = 500 \<and> leaf_quantity node = 200
                \<longrightarrow> dec_val (price ord) = 5 \<and> dec_val (quantity ord) = 2 / 100)"
proof -
  define s where "s = (if data_type (meta_data self) = Bids then BUY else SELL)"
  from assms have "ord \<in> set (yielded (orders_loop fuel self s [root_node self]))"
    by (simp add: orders_def s_def split: if_splits)
  then obtain i node where i: "i < length (nodes self)" and n: "nodes self ! i = Leaf node"
    and lo: "leaf_order self s node = Inr ord"
    using loop_yields_leaves by blast
  from i n have mem: "Leaf node \<in> set (nodes self)"
    by (metis nth_mem)
  from lo obtain ratio where
    r: "dec_div (dec_of_int (quote_lot_size (perp_market_details self)))
          (dec_of_int (base_lot_size (perp_market_details self))) = Inr ratio"
    and p: "price ord =
              dec_mul (dec_mul (dec_of_int (key_price node)) ratio)
                (dec_pow10 (decimals (base_token (perp_market_details self))
                             - decimals (quote_token (perp_market_details self))))"
    and q: "dec_div (dec_mul (dec_of_int (leaf_quantity node))
                       (dec_of_int (base_lot_size (perp_market_details self))))
              (dec_pow10 (decimals (base_token (perp_market_details self))))
            = Inr (quantity ord)"
    by (auto simp: leaf_order_def Let_def split: sum.splits)
  have "dec_val (price ord) = 5 \<and> dec_val (quantity ord) = 2 / 100"
    if "decimals (base_token (perp_market_details self)) = 6"
      "decimals (quote_token (perp_market_details self)) = 6"
      "base_lot_size (perp_market_details self) = 100"
      "quote_lot_size (perp_market_details self) = 1"
      "key_price node = 500" "leaf_quantity node = 200"
    using worked_values [of ratio "quantity ord"] r p q that by simp
  with mem r p q show ?thesis by blast
qed

theorem orders_scaling_witness:
  "worked_order \<in> set (yielded (orders 1 worked_side))
   \<and> nodes worked_side = [Leaf worked_leaf]
   \<and> dec_val (price worked_order) = 5 \<and> dec_val (quantity worked_order) = 2 / 100
   \<and> exact_price worked_market 500 = 5 \<and> exact_quantity worked_market 200 = 2 / 100"
proof -
  have m: "worked_order \<in> set (yielded (orders 1 worked_side))"
    unfolding worked_run by simp
  have n: "nodes worked_side = [Leaf worked_leaf]"
    by (simp add: worked_side_def)
  have f: "decimals (base_token (perp_market_details worked_side)) = 6"
    "decimals (quote_token (perp_market_details worked_side)) = 6"
    "base_lot_size (perp_market_details worked_side) = 100"
    "quote_lot_size (perp_market_details worked_side) = 1"
    "key_price worked_leaf = 500" "leaf_quantity worked_leaf = 200"
    by (simp_all add: worked_side_def worked_market_def worked_leaf_def)
  from orders_scaling [OF m] obtain node where
    "Leaf node \<in> set (nodes worked_side)"
    and v: "decimals (base_token (perp_market_details worked_side)) = 6
        \<and> decimals (quote_token (perp_market_details worked_side)) = 6
        \<and> base_lot_size (perp_market_details worked_side) = 100
        \<and> quote_lot_size (perp_market_details worked_side) = 1
        \<and> key_price node = 500 \<and> leaf_quantity node = 200
        \<longrightarrow> dec_val (price worked_order) = 5 \<and> dec_val (quantity worked_order) = 2 / 100"
    by blast
  then have "node = worked_leaf" by (simp add: n)
  with v f have "dec_val (price worked_order) = 5 \<and> dec_val (quantity worked_order) = 2 / 100"
    by simp
  moreover have "exact_price worked_market 500 = 5 \<and> exact_quantity worked_market 200 = 2 / 100"
    by (simp add: exact_price_def exact_quantity_def worked_market_def rat_pow10_def)
  ultimately show ?thesis using m n by simp
qed



section \<open>Decoding\<close>





section \<open>Building the watcher\<close>

text \<open>
  C6. When the synchronous fetch finds no account at the address, \<open>load\<close> raises and
  returns no order book side, and \<open>build_perp_orderbook_side_watcher\<close> raises and leaves
  the world as it found it: no subscription, no observer, nothing added to the manager or
  to the health check.
\<close>

theorem not_found_builds_nothing:
  "(AccountInfo_load context addr = None \<longrightarrow>
      load c context addr details = Inl (AccountNotFound addr))
   \<and> (AccountInfo_load context
         (if side_type = BIDS then bids (underlying_perp_market perp_market)
          else asks (underlying_perp_market perp_market)) = None \<longrightarrow>
        build_perp_orderbook_side_watcher c context perp_market side_type w
          = (Inl (OrderBookSideNotFound
                    (if side_type = BIDS then bids (underlying_perp_market perp_market)
                     else asks (underlying_perp_market perp_market))), w))"
  by (simp add: load_def build_perp_orderbook_side_watcher_def Let_def)

theorem not_found_builds_nothing_witness:
  "AccountInfo_load example_context ''asks'' = None
   \<and> load example_codec example_context ''asks'' example_market = Inl (AccountNotFound ''asks'')
   \<and> build_perp_orderbook_side_watcher example_codec example_context example_perp_market ASKS
         empty_world
       = (Inl (OrderBookSideNotFound ''asks''), empty_world)"
  using not_found_builds_nothing
          [of example_context "''asks''" example_codec example_market ASKS example_perp_market
              empty_world]
  by (simp add: example_load example_addresses)








end
